theory Spec2Isabelle
  imports Complex_Main
begin

section \<open>Values and errors\<close>

text \<open>
  The numbers of the program are Python floats and numpy float64 values. They are
  idealised as real numbers: rounding and overflow of the binary format are not modelled.
  What is modelled is where a value stops being a number. Python's own float division
  raises \<open>ZeroDivisionError\<close>; numpy's division by zero and numpy's square root of a
  negative number only warn and give \<open>inf\<close> or \<open>nan\<close>.
\<close>

datatype error =
  AttributeError
  | TypeError
  | IndexError
  | ValueError
  | ZeroDivisionError
  | LinAlgError
  | NonFinite

text \<open>
  \<open>NonFinite\<close> is not a Python exception. It marks a run in which numpy has put
  \<open>inf\<close> or \<open>nan\<close> into an array that is then handed to further linear algebra; the
  real-valued model does not follow such a run.
\<close>

definition bnd :: "error + 'a \<Rightarrow> ('a \<Rightarrow> error + 'b) \<Rightarrow> error + 'b" where
  "bnd m f = (case m of Inl e \<Rightarrow> Inl e | Inr v \<Rightarrow> f v)"

text \<open>Reading an attribute that no method has assigned yet raises \<open>AttributeError\<close>.\<close>

definition attr :: "'a option \<Rightarrow> error + 'a" where
  "attr a = (case a of None \<Rightarrow> Inl AttributeError | Some v \<Rightarrow> Inr v)"

text \<open>
  A numpy float64 that is the end result of a numpy division or square root:
  \<open>NonFin\<close> stands for \<open>inf\<close>, \<open>-inf\<close> and \<open>nan\<close>. Sums, differences, products and
  square roots of a non-finite value are non-finite again, and no value of this type is
  ever used as a divisor.
\<close>

datatype npfloat = Fin real | NonFin

definition np_div :: "real \<Rightarrow> real \<Rightarrow> npfloat" where
  "np_div a b = (if b = 0 then NonFin else Fin (a / b))"

fun np_sqrt :: "npfloat \<Rightarrow> npfloat" where
  "np_sqrt (Fin a) = (if a < 0 then NonFin else Fin (sqrt a))"
| "np_sqrt NonFin = NonFin"

fun np_add :: "npfloat \<Rightarrow> npfloat \<Rightarrow> npfloat" where
  "np_add (Fin a) (Fin b) = Fin (a + b)"
| "np_add _ _ = NonFin"

fun np_mul :: "npfloat \<Rightarrow> npfloat \<Rightarrow> npfloat" where
  "np_mul (Fin a) (Fin b) = Fin (a * b)"
| "np_mul _ _ = NonFin"

fun np_neg :: "npfloat \<Rightarrow> npfloat" where
  "np_neg (Fin a) = Fin (- a)"
| "np_neg NonFin = NonFin"

definition np_sub :: "npfloat \<Rightarrow> npfloat \<Rightarrow> npfloat" where
  "np_sub a b = np_add a (np_neg b)"

text \<open>An attribute that starts as a method of the class and can be rebound to a value.\<close>

datatype 'a slot = Method | Value 'a

section \<open>The class Fall\<close>

text \<open>
  One field for every attribute the methods of \<open>Fall\<close> assign. \<open>__init__\<close> sets
  \<open>ksol\<close>, \<open>c\<close> and \<open>keys\<close>; every other attribute is absent (\<open>None\<close>) until a method
  assigns it. \<open>gTop\<close> and \<open>gTopCor\<close> are names of methods that their own bodies
  reassign. The solution of \<open>numpy.linalg.lstsq\<close> is kept as the pair of its first two
  components, the solution vector and the array of residual sums.
\<close>

record Fall =
  ksol :: real
  c :: real
  keys :: "string list"
  fringe :: "real list option"
  Lambda :: "real option"
  scaleFactor :: "real option"
  multiplex :: "real option"
  gradient :: "real option"
  fmod :: "real option"
  Lpar :: "real option"
  rubiFreq :: "real option"
  frmin :: "int option"
  frmax :: "int option"
  frmaxss :: "int option"
  frminss :: "int option"
  tt :: "real list option"
  m02 :: "npfloat list option"
  std :: "npfloat option"
  stdX :: "npfloat list option"
  x_grad :: "(real list \<times> real list) option"
  m02_grad :: "npfloat list option"
  std_grad :: "npfloat list option"
  xef :: "(real list \<times> real list) option"
  res_grad1 :: "real list option"
  ssres :: "npfloat option"
  xgrad4 :: "(real list \<times> real list) option"
  m0grad4 :: "npfloat list option"
  Resgrad4 :: "real list option"
  resgrad4 :: "real list option"
  g0_Gr :: "real option"
  z0 :: "real option"
  v0 :: "real option"
  g0 :: "real option"
  h :: "npfloat option"
  Grad :: "npfloat option"
  htop :: "npfloat option"
  effectiveZ :: "npfloat option"
  gTop :: "npfloat slot"
  gTopCor :: "npfloat slot"

definition init :: Fall where
  "init = \<lparr> ksol = 1, c = 2.99792458 * 10 ^ 17,
     keys = [''z0'', ''v0'', ''g0'', ''a1'', ''a2'', ''a3'', ''a4'', ''a5'', ''a6''],
     fringe = None, Lambda = None, scaleFactor = None, multiplex = None, gradient = None,
     fmod = None, Lpar = None, rubiFreq = None, frmin = None, frmax = None,
     frmaxss = None, frminss = None, tt = None, m02 = None, std = None, stdX = None,
     x_grad = None, m02_grad = None, std_grad = None, xef = None, res_grad1 = None,
     ssres = None, xgrad4 = None, m0grad4 = None, Resgrad4 = None, resgrad4 = None,
     g0_Gr = None, z0 = None, v0 = None, g0 = None, h = None, Grad = None, htop = None,
     effectiveZ = None, gTop = Method, gTopCor = Method \<rparr>"

subsection \<open>Setters\<close>

definition setFringe :: "real list \<Rightarrow> Fall \<Rightarrow> Fall" where
  "setFringe times' s = s\<lparr>fringe := Some times'\<rparr>"

definition setLambda :: "real \<Rightarrow> Fall \<Rightarrow> Fall" where
  "setLambda Lam s = s\<lparr>Lambda := Some Lam\<rparr>"

definition setScaleFactor :: "real \<Rightarrow> Fall \<Rightarrow> Fall" where
  "setScaleFactor sf s = s\<lparr>scaleFactor := Some sf\<rparr>"

definition setMultiplex :: "real \<Rightarrow> Fall \<Rightarrow> Fall" where
  "setMultiplex mp s = s\<lparr>multiplex := Some mp\<rparr>"

definition setGradient :: "real \<Rightarrow> Fall \<Rightarrow> Fall" where
  "setGradient grad s = s\<lparr>gradient := Some (- 100 * grad * (1 / 10 ^ 8))\<rparr>"

definition setModulFreq :: "real \<Rightarrow> Fall \<Rightarrow> Fall" where
  "setModulFreq fm s = s\<lparr>fmod := Some fm\<rparr>"

definition setLpar :: "real \<Rightarrow> Fall \<Rightarrow> Fall" where
  "setLpar lp s = s\<lparr>Lpar := Some lp\<rparr>"

definition setRubiFreq :: "real \<Rightarrow> Fall \<Rightarrow> Fall" where
  "setRubiFreq freq s = s\<lparr>rubiFreq := Some freq\<rparr>"

definition setFrRange :: "int \<Rightarrow> int \<Rightarrow> Fall \<Rightarrow> Fall" where
  "setFrRange frmin' frmax' s = s\<lparr>frmin := Some (frmin' - 1), frmax := Some frmax'\<rparr>"

text \<open>The first parameter of \<open>setFRssRange\<close> is \<open>frmaxss\<close>, the second \<open>frminss\<close>.\<close>

definition setFRssRange :: "int \<Rightarrow> int \<Rightarrow> Fall \<Rightarrow> Fall" where
  "setFRssRange frmaxss' frminss' s =
     s\<lparr>frmaxss := Some frmaxss', frminss := Some (frminss' - 1)\<rparr>"

subsection \<open>Derived quantities\<close>

text \<open>
  \<open>g0_Gr\<close>, \<open>g0\<close>, \<open>v0\<close> and \<open>z0\<close> are numpy float64 values taken from a solution vector,
  so every division below is numpy's.
\<close>

definition effectiveHeight :: "Fall \<Rightarrow> error + Fall" where
  "effectiveHeight s =
     bnd (attr (g0_Gr s)) (\<lambda>g0_Gr'.
     bnd (attr (g0 s)) (\<lambda>g0'.
     bnd (attr (gradient s)) (\<lambda>gradient'.
       Inr (s\<lparr>h := Some (np_div (- (g0_Gr' - g0')) gradient')\<rparr>))))"

definition effectiveHeightTop :: "Fall \<Rightarrow> error + Fall" where
  "effectiveHeightTop s =
     bnd (attr (v0 s)) (\<lambda>v0'.
     bnd (attr (g0_Gr s)) (\<lambda>g0_Gr'.
       let s1 = s\<lparr>Grad := Some (np_div (v0' ^ 2) (2 * g0_Gr'))\<rparr> in
       bnd (attr (h s1)) (\<lambda>h'.
       bnd (attr (Grad s1)) (\<lambda>Grad'.
         Inr (s1\<lparr>htop := Some (np_add h' Grad')\<rparr>)))))"

definition effectivePosition :: "Fall \<Rightarrow> error + Fall" where
  "effectivePosition s =
     bnd (attr (h s)) (\<lambda>h'.
     bnd (attr (z0 s)) (\<lambda>z0'.
       Inr (s\<lparr>effectiveZ := Some (np_add h' (Fin z0'))\<rparr>)))"

text \<open>
  \<open>self.gTop()\<close> looks the name \<open>gTop\<close> up on the instance first. Once the body has
  run, the instance attribute holds a number, and calling a number raises \<open>TypeError\<close>.
\<close>

definition gTop_method :: "Fall \<Rightarrow> error + Fall" where
  "gTop_method s =
     (case gTop s of
        Value _ \<Rightarrow> Inl TypeError
      | Method \<Rightarrow>
          bnd (attr (g0_Gr s)) (\<lambda>g0_Gr'.
          bnd (attr (gradient s)) (\<lambda>gradient'.
          bnd (attr (Grad s)) (\<lambda>Grad'.
            Inr (s\<lparr>gTop := Value (np_sub (Fin g0_Gr') (np_mul (Fin gradient') Grad'))\<rparr>)))))"

text \<open>
  In \<open>gTopCor\<close> the name \<open>self.gTop\<close> is read as a number; while it is still the bound
  method, adding a float to it raises \<open>TypeError\<close>.
\<close>

definition gTopCor_method :: "real \<Rightarrow> real \<Rightarrow> real \<Rightarrow> real \<Rightarrow> Fall \<Rightarrow> error + Fall" where
  "gTopCor_method tide load baro polar s =
     (case gTopCor s of
        Value _ \<Rightarrow> Inl TypeError
      | Method \<Rightarrow>
          (case gTop s of
             Method \<Rightarrow> Inl TypeError
           | Value gTop' \<Rightarrow>
               Inr (s\<lparr>gTopCor := Value
                 (np_add (np_add (np_add (np_add gTop' (Fin (10 * tide))) (Fin (10 * load)))
                    (Fin (10 * baro))) (Fin (10 * polar)))\<rparr>)))"

section \<open>numpy arrays\<close>

text \<open>
  A two-dimensional array is its number of columns and its rows; the number of columns is
  kept because \<open>A.shape[1]\<close> is defined for an array with no rows too. Every row of a
  matrix built below has \<open>ncols\<close> entries.
\<close>

datatype matrix = Matrix (ncols: nat) (rows: "real list list")

text \<open>
  Python's slice \<open>xs[lo:hi]\<close> with integer bounds: a negative bound counts from the end,
  and bounds outside the list are clipped.
\<close>

definition clip_index :: "int \<Rightarrow> nat \<Rightarrow> nat" where
  "clip_index i n = (if i < 0 then nat (max (i + int n) 0) else min (nat i) n)"

definition py_slice :: "int \<Rightarrow> int \<Rightarrow> 'a list \<Rightarrow> 'a list" where
  "py_slice lo hi xs =
     (let n = length xs; a = clip_index lo n; b = clip_index hi n
      in take (b - a) (drop a xs))"

text \<open>Indexing \<open>xs[i]\<close> with a constant index \<open>i \<ge> 0\<close>.\<close>

definition nth_py :: "'a list \<Rightarrow> nat \<Rightarrow> error + 'a" where
  "nth_py xs i = (if i < length xs then Inr (xs ! i) else Inl IndexError)"

definition slice_rows :: "int \<Rightarrow> int \<Rightarrow> matrix \<Rightarrow> matrix" where
  "slice_rows lo hi A = Matrix (ncols A) (py_slice lo hi (rows A))"

definition cols_upto :: "nat \<Rightarrow> matrix \<Rightarrow> matrix" where
  "cols_upto k A = Matrix (min k (ncols A)) (map (take k) (rows A))"

definition cols_from :: "nat \<Rightarrow> matrix \<Rightarrow> matrix" where
  "cols_from k A = Matrix (ncols A - k) (map (drop k) (rows A))"

definition set_column :: "nat \<Rightarrow> real list \<Rightarrow> matrix \<Rightarrow> matrix" where
  "set_column j col A = Matrix (ncols A) (map2 (\<lambda>r v. r[j := v]) (rows A) col)"

definition np_dot :: "real list \<Rightarrow> real list \<Rightarrow> real" where
  "np_dot xs ys = sum_list (map2 (*) xs ys)"

definition np_dot_f :: "npfloat list \<Rightarrow> npfloat list \<Rightarrow> npfloat" where
  "np_dot_f xs ys = foldl np_add (Fin 0) (map2 np_mul xs ys)"

text \<open>\<open>np.dot(A.T, A)\<close>: the shapes \<open>(k, n)\<close> and \<open>(n, k)\<close> always fit.\<close>

definition np_dot_AT_A :: "matrix \<Rightarrow> matrix" where
  "np_dot_AT_A A =
     Matrix (ncols A)
       (map (\<lambda>i. map (\<lambda>j. sum_list (map (\<lambda>r. r ! i * r ! j) (rows A))) [0..<ncols A])
          [0..<ncols A])"

definition np_matmul :: "matrix \<Rightarrow> real list \<Rightarrow> error + real list" where
  "np_matmul A v =
     (if ncols A = length v then Inr (map (\<lambda>r. np_dot r v) (rows A)) else Inl ValueError)"

definition np_diag :: "matrix \<Rightarrow> real list" where
  "np_diag M = map (\<lambda>i. rows M ! i ! i) [0..<min (length (rows M)) (ncols M)]"

text \<open>
  An elementwise operation on two one-dimensional arrays: equal lengths, or one of them
  of length one, which is repeated; otherwise the shapes cannot be broadcast together.
\<close>

definition broadcast :: "('a \<Rightarrow> 'b \<Rightarrow> 'c) \<Rightarrow> 'a list \<Rightarrow> 'b list \<Rightarrow> error + 'c list" where
  "broadcast f xs ys =
     (if length xs = length ys then Inr (map2 f xs ys)
      else if length ys = 1 then Inr (map (\<lambda>a. f a (hd ys)) xs)
      else if length xs = 1 then Inr (map (f (hd xs)) ys)
      else Inl ValueError)"

definition np_subtract :: "real list \<Rightarrow> real list \<Rightarrow> error + real list" where
  "np_subtract xs ys = broadcast (-) xs ys"

definition np_multiply :: "real list \<Rightarrow> npfloat list \<Rightarrow> error + npfloat list" where
  "np_multiply xs ys = broadcast (\<lambda>a b. np_mul (Fin a) b) xs ys"

text \<open>
  The two routines of \<open>numpy.linalg\<close> that \<open>computeLST\<close> calls are parameters of the
  model. \<open>lstsq A z\<close> gives the solution vector and the array of residual sums (one sum
  when \<open>A\<close> has full column rank and more rows than columns, none otherwise); \<open>inv M\<close> is
  \<open>np.matrix(M).I\<close>, which raises \<open>LinAlgError\<close> for a singular matrix.
\<close>

record linalg =
  lstsq :: "matrix \<Rightarrow> real list \<Rightarrow> error + (real list \<times> real list)"
  inv :: "matrix \<Rightarrow> error + matrix"

section \<open>The least-squares solve\<close>

definition computeLST ::
  "linalg \<Rightarrow> Fall \<Rightarrow> matrix \<Rightarrow> real list \<Rightarrow>
     error + ((real list \<times> real list) \<times> matrix \<times> npfloat list \<times> npfloat \<times> npfloat list \<times> real list)"
where
  "computeLST np s A z =
     bnd (lstsq np A z) (\<lambda>x.
     bnd (inv np (np_dot_AT_A A)) (\<lambda>covar.
     bnd (attr (frmax s)) (\<lambda>frmax'.
     bnd (attr (frmin s)) (\<lambda>frmin'.
       let m02' = map (\<lambda>r. np_div r (of_int (frmax' - frmin' - int (ncols A) - 1))) (snd x) in
       bnd (np_multiply (np_diag covar) m02') (\<lambda>prod.
         let stdX' = map np_sqrt prod;
             std' = np_dot_f stdX' stdX'
         in
         bnd (np_matmul A (fst x)) (\<lambda>Ax.
         bnd (np_subtract z Ax) (\<lambda>res.
           Inr (x, covar, m02', std', stdX', res))))))))"

section \<open>The three regressions of a drop\<close>

definition z1_at :: "real \<Rightarrow> real \<Rightarrow> real \<Rightarrow> nat \<Rightarrow> real" where
  "z1_at Lam mp sf i = Lam / 2 * real i * mp * sf"

definition tt_at :: "real \<Rightarrow> real \<Rightarrow> real \<Rightarrow> real \<Rightarrow> real \<Rightarrow> real" where
  "tt_at rubi ks cc fr z = fr * (10 ^ 7 / rubi) + ks * z / cc"

text \<open>The rows \<open>line\<close> and \<open>line_grad\<close> of the loop body, for one time tag and position.\<close>

definition line :: "real \<Rightarrow> real \<Rightarrow> real \<Rightarrow> real \<Rightarrow> real \<Rightarrow> real list" where
  "line fm cc lp t z =
     (let arg1 = 2 * pi * fm * t;
          arg2 = 2 * pi * fm * 2 * z / cc;
          z_z0 = 1;
          z_v0 = t;
          z_g0 = t ^ 2 / 2;
          z_a1 = sin arg1 * cos arg2;
          z_a2 = cos arg1 * cos arg2;
          z_a3 = sin arg1 * sin arg2;
          z_a4 = cos arg1 * sin arg2;
          z_a5 = sin (2 * pi * z / lp);
          z_a6 = cos (2 * pi * z / lp)
      in [z_z0, z_v0, z_g0, z_a3, z_a1, z_a4, z_a2, z_a5, z_a6])"

definition line_grad :: "real \<Rightarrow> real \<Rightarrow> real \<Rightarrow> real \<Rightarrow> real \<Rightarrow> real \<Rightarrow> real list" where
  "line_grad fm gr cc lp t z =
     (let arg1 = 2 * pi * fm * t;
          arg2 = 2 * pi * fm * 2 * z / cc;
          z_z0 = 1;
          z_v0_grad = t + (gr / 6) * t ^ 3;
          z_g0_grad = t ^ 2 / 2 + (gr / 24) * t ^ 4;
          z_a1 = sin arg1 * cos arg2;
          z_a2 = cos arg1 * cos arg2;
          z_a3 = sin arg1 * sin arg2;
          z_a4 = cos arg1 * sin arg2;
          z_a5 = sin (2 * pi * z / lp);
          z_a6 = cos (2 * pi * z / lp)
      in [z_z0, z_v0_grad, z_g0_grad, z_a3, z_a1, z_a4, z_a2, z_a5, z_a6])"

definition line4 :: "real \<Rightarrow> real \<Rightarrow> real \<Rightarrow> real list" where
  "line4 lp t z = [1, t, 0, sin (2 * pi * z / lp), cos (2 * pi * z / lp)]"

text \<open>
  The loop over all fringes. Nothing in its body depends on an earlier iteration, and
  every exception it can raise is raised in the first iteration: a missing attribute, or
  Python's float division \<open>1e7/self.rubiFreq\<close>. With no fringe the body never runs.
  Dividing the numpy value \<open>z1[i]\<close> by a zero \<open>c\<close> or \<open>Lpar\<close> gives \<open>nan\<close> in the first row.
  The result is \<open>(z1, tt, A_grad1, A1, A4)\<close>, column 2 of \<open>A4\<close> still zero.
\<close>

definition fringe_loop ::
  "Fall \<Rightarrow> real list \<Rightarrow> error + (real list \<times> real list \<times> matrix \<times> matrix \<times> matrix)" where
  "fringe_loop s fr =
     (if fr = [] then Inr ([], [], Matrix 9 [], Matrix 9 [], Matrix 5 [])
      else
        bnd (attr (Lambda s)) (\<lambda>Lam.
        bnd (attr (multiplex s)) (\<lambda>mp.
        bnd (attr (scaleFactor s)) (\<lambda>sf.
        bnd (attr (rubiFreq s)) (\<lambda>rubi.
          if rubi = 0 then Inl ZeroDivisionError
          else
            bnd (attr (fmod s)) (\<lambda>fm.
            bnd (attr (gradient s)) (\<lambda>gr.
            bnd (attr (Lpar s)) (\<lambda>lp.
              if c s = 0 \<or> lp = 0 then Inl NonFinite
              else
                let z1 = map (z1_at Lam mp sf) [0..<length fr];
                    tt' = map2 (tt_at rubi (ksol s) (c s)) fr z1
                in Inr (z1, tt',
                     Matrix 9 (map2 (line_grad fm gr (c s) lp) tt' z1),
                     Matrix 9 (map2 (line fm (c s) lp) tt' z1),
                     Matrix 5 (map2 (line4 lp) tt' z1))))))))))"

text \<open>
  The column \<open>A4[:,2]\<close> and the observation vector \<open>zgrad\<close> of the regression with
  modulation. The two list comprehensions range over the fringes and read \<open>x[0][1]\<close>,
  \<open>x[0][2]\<close>, \<open>x_grad[0][2]\<close> and \<open>self.gradient\<close> only when there is a fringe.
\<close>

definition A4_column2 :: "real \<Rightarrow> real \<Rightarrow> real \<Rightarrow> real \<Rightarrow> real \<Rightarrow> real" where
  "A4_column2 x1 x2 xg2 gr t =
     (x1 / 6 * t ^ 3 + x2 / 24 * t ^ 4 - (x2 - xg2) * t ^ 2 / (gr * 2)) / 10 ^ 6"

definition modulation ::
  "Fall \<Rightarrow> real list \<Rightarrow> real list \<Rightarrow> real list \<Rightarrow> real list \<Rightarrow> matrix \<Rightarrow>
     error + (real list \<times> real list)" where
  "modulation s x xg z1 tt' A_grad1 =
     bnd (if tt' = [] then Inr ([], [])
          else
            bnd (nth_py x 1) (\<lambda>x1.
            bnd (nth_py x 2) (\<lambda>x2.
            bnd (nth_py xg 2) (\<lambda>xg2.
            bnd (attr (gradient s)) (\<lambda>gr.
              Inr (map (A4_column2 x1 x2 xg2 gr) tt',
                   map2 (\<lambda>z t. z - x2 / 2 * t ^ 2) z1 tt'))))))
       (\<lambda>(col2, zgrad0).
          bnd (np_matmul (cols_from 3 A_grad1) (drop 3 x)) (\<lambda>modkor.
          bnd (np_subtract zgrad0 modkor) (\<lambda>zgrad.
            Inr (col2, zgrad))))"

text \<open>The drop-acceptance value \<open>ssres\<close> from the residuals of all fringes.\<close>

definition ssres_of :: "real list \<Rightarrow> int \<Rightarrow> int \<Rightarrow> npfloat" where
  "ssres_of res1 frminss' frmaxss' =
     (let ress = py_slice frminss' frmaxss' res1
      in np_sqrt (np_div (np_dot ress ress) (of_int (frmaxss' - frminss' + 1))))"

text \<open>
  \<open>LST\<close>. The attributes it assigns are collected in the state it returns; when an
  exception is raised the object is not followed further. \<open>frmin\<close> and \<open>frmax\<close> do not
  change during the call, so each solve reads them from the state at entry. With a zero
  \<open>gradient\<close> the column \<open>A4[:,2]\<close> is \<open>nan\<close> or \<open>inf\<close> when it is handed to the last solve.
\<close>

definition LST :: "linalg \<Rightarrow> Fall \<Rightarrow> error + Fall" where
  "LST np s =
     bnd (attr (fringe s)) (\<lambda>fr.
     bnd (fringe_loop s fr) (\<lambda>(z1, tt', A_grad1, A1, A4).
     bnd (attr (frmin s)) (\<lambda>frmin'.
     bnd (attr (frmax s)) (\<lambda>frmax'.
       let A_grad = slice_rows frmin' frmax' A_grad1;
           A = slice_rows frmin' frmax' A1;
           z = py_slice frmin' frmax' z1;
           A2 = cols_upto 7 A
       in
       bnd (computeLST np s A z) (\<lambda>(x, covar, m02', std', stdX', res).
       bnd (computeLST np s A_grad z) (\<lambda>(x_grad', covar_grad, m02_grad', stdstd, std_grad', res_grad).
       bnd (computeLST np s A2 z) (\<lambda>(xef', xefCovar, xefM02, xefStd, stdXX, xefRes).
       bnd (np_matmul A_grad1 (fst x_grad')) (\<lambda>Ax_grad.
       bnd (np_subtract z1 Ax_grad) (\<lambda>res_grad1'.
       bnd (attr (frminss s)) (\<lambda>frminss'.
       bnd (attr (frmaxss s)) (\<lambda>frmaxss'.
       bnd (modulation s (fst x) (fst x_grad') z1 tt' A_grad1) (\<lambda>(col2, zgrad).
         let A4' = set_column 2 col2 A4;
             AA4 = slice_rows frmin' frmax' A4';
             zgrad4 = py_slice frmin' frmax' zgrad
         in
         if tt' \<noteq> [] \<and> gradient s = Some 0 then Inl NonFinite
         else
           bnd (computeLST np s AA4 zgrad4)
             (\<lambda>(xgrad4', covarXgrad4, m0grad4', stdGrad4, stdGradX, Resgrad4').
           bnd (np_matmul A4' (fst xgrad4')) (\<lambda>Ax4.
           bnd (np_subtract zgrad Ax4) (\<lambda>resgrad4'.
           bnd (nth_py (fst x_grad') 2) (\<lambda>xg2.
           bnd (nth_py (fst x) 0) (\<lambda>x0.
           bnd (nth_py (fst x) 1) (\<lambda>x1.
           bnd (nth_py (fst x) 2) (\<lambda>x2.
             Inr (s\<lparr>tt := Some tt', m02 := Some m02', std := Some std', stdX := Some stdX',
                    x_grad := Some x_grad', m02_grad := Some m02_grad',
                    std_grad := Some std_grad', xef := Some xef',
                    res_grad1 := Some res_grad1',
                    ssres := Some (ssres_of res_grad1' frminss' frmaxss'),
                    xgrad4 := Some xgrad4', m0grad4 := Some m0grad4',
                    Resgrad4 := Some Resgrad4', resgrad4 := Some resgrad4',
                    g0_Gr := Some xg2, z0 := Some x0, v0 := Some x1,
                    g0 := Some x2\<rparr>))))))))))))))))))))"

section \<open>The class estim\<close>

text \<open>
  \<open>printResult\<close> multiplies floats by the literal \<open>1e-6\<close> and calls \<open>round\<close> on the
  product. Rounding to a number of places is not continuous, so the product is not read as
  the product of real numbers here: the type \<open>'a\<close> of the floats and the operations on
  it that \<open>printResult\<close> uses are parameters of the model. \<open>fmul\<close> is the product of two
  floats, \<open>lit_1e_6\<close> the literal \<open>1e-6\<close>, \<open>py_round v n\<close> is \<open>round(v, n)\<close> on a float, and
  \<open>of_pyint\<close> the conversion of an int that meets a float in a product.
\<close>

record 'a float_ops =
  fmul :: "'a \<Rightarrow> 'a \<Rightarrow> 'a"
  lit_1e_6 :: 'a
  py_round :: "'a \<Rightarrow> nat \<Rightarrow> 'a"
  of_pyint :: "int \<Rightarrow> 'a"

text \<open>
  A value written to the csv file is a Python int or a float. The open file is the list of
  its lines so far: the two header lines, then one row for every call of \<open>printResult\<close>.
\<close>

datatype 'a cell = IntCell int | FloatCell 'a

datatype 'a csv_line = Text string | Row "'a cell list"

record 'a estim =
  f :: "'a csv_line list"

text \<open>
  \<open>__init__\<close> opens the file and writes the two header lines, the column names and
  the units, each with \<open>;\<close> between the columns.
\<close>

definition estim_init :: "'a estim" where
  "estim_init = \<lparr> f =
     [Text ''Set ; Drop ; m0 ; z0 ; z0-std ; v0 ; v0-std ; g0 ; g0-std ; a ; a-std ; b ; b-std ; c ; c-std ; d ; d-std ; e ; e-std ; f ; f-std '',
      Text ''   ;    ; ; mm ; mm ; mm.s-1 ; mm.s-1 ; nm.s-2 ; nm.s-2 ; nm ; nm ; nm ; nm ; nm ; nm ; nm ; nm ; nm ; nm ; nm ; nm   ''] \<rparr>"

text \<open>
  \<open>dropResult[i] = round(dropResult[i]*1e-6, n)\<close>; the index must exist. An int in the
  product is converted to a float first.
\<close>

definition scale_round_at ::
  "'a float_ops \<Rightarrow> nat \<Rightarrow> nat \<Rightarrow> 'a cell list \<Rightarrow> error + 'a cell list" where
  "scale_round_at fl i n dropResult =
     bnd (nth_py dropResult i) (\<lambda>v.
       Inr (dropResult[i := FloatCell
         (py_round fl
            (fmul fl (case v of IntCell k \<Rightarrow> of_pyint fl k | FloatCell r \<Rightarrow> r) (lit_1e_6 fl))
            n)]))"

text \<open>
  \<open>dropResult[i] = round(dropResult[i], n)\<close>; \<open>round\<close> of an int to \<open>n \<ge> 0\<close> places is the
  int itself.
\<close>

definition round_at ::
  "'a float_ops \<Rightarrow> nat \<Rightarrow> nat \<Rightarrow> 'a cell list \<Rightarrow> error + 'a cell list" where
  "round_at fl i n dropResult =
     bnd (nth_py dropResult i) (\<lambda>v.
       Inr (dropResult[i :=
         (case v of IntCell k \<Rightarrow> IntCell k | FloatCell r \<Rightarrow> FloatCell (py_round fl r n))]))"

text \<open>The loop that appends \<open>X[i]\<close> and \<open>std[i]\<close> for every index of \<open>X\<close>.\<close>

fun append_pairs :: "'a list \<Rightarrow> 'a list \<Rightarrow> 'a cell list \<Rightarrow> error + 'a cell list" where
  "append_pairs [] sd dropResult = Inr dropResult"
| "append_pairs (v # X) [] dropResult = Inl IndexError"
| "append_pairs (v # X) (e # sd) dropResult =
     append_pairs X sd (dropResult @ [FloatCell v, FloatCell e])"

definition printResult ::
  "'a float_ops \<Rightarrow> 'a list \<Rightarrow> 'a list \<Rightarrow> int \<Rightarrow> int \<Rightarrow> 'a list \<Rightarrow> 'a estim
     \<Rightarrow> error + 'a estim" where
  "printResult fl X sd set' drop' m0 e =
     bnd (nth_py m0 0) (\<lambda>m00.
     bnd (append_pairs X sd [IntCell set', IntCell drop', FloatCell m00]) (\<lambda>r0.
     bnd (scale_round_at fl 3 4 r0) (\<lambda>r1.
     bnd (scale_round_at fl 4 14 r1) (\<lambda>r2.
     bnd (scale_round_at fl 5 4 r2) (\<lambda>r3.
     bnd (scale_round_at fl 6 15 r3) (\<lambda>r4.
     bnd (round_at fl 8 3 r4) (\<lambda>r5.
       Inr (e\<lparr>f := f e @ [Row r5]\<rparr>))))))))"

text \<open>
  The float operations read as expressions: a float is a named input or the expression
  that computed it. With these operations a row shows which operations reached each of
  its cells.
\<close>

datatype float_expr =
  Given string
  | FromInt int
  | Lit_1e_6
  | Product float_expr float_expr
  | Rounded float_expr nat

definition symbolic :: "float_expr float_ops" where
  "symbolic = \<lparr> fmul = Product, lit_1e_6 = Lit_1e_6, py_round = Rounded, of_pyint = FromInt \<rparr>"

section \<open>Calling methods on one instance\<close>

text \<open>
  The public methods of \<open>Fall\<close>, and a caller that invokes a sequence of them on the same
  instance and stops at the first exception. \<open>computeLST\<close> returns its results and assigns
  nothing.
\<close>

datatype invocation =
  M_setFringe "real list"
  | M_setLambda real
  | M_setScaleFactor real
  | M_setMultiplex real
  | M_setGradient real
  | M_setModulFreq real
  | M_setLpar real
  | M_setRubiFreq real
  | M_setFrRange int int
  | M_setFRssRange int int
  | M_computeLST matrix "real list"
  | M_LST
  | M_effectiveHeight
  | M_effectiveHeightTop
  | M_effectivePosition
  | M_gTop
  | M_gTopCor real real real real

fun call :: "linalg \<Rightarrow> invocation \<Rightarrow> Fall \<Rightarrow> error + Fall" where
  "call np (M_setFringe v) s = Inr (setFringe v s)"
| "call np (M_setLambda v) s = Inr (setLambda v s)"
| "call np (M_setScaleFactor v) s = Inr (setScaleFactor v s)"
| "call np (M_setMultiplex v) s = Inr (setMultiplex v s)"
| "call np (M_setGradient v) s = Inr (setGradient v s)"
| "call np (M_setModulFreq v) s = Inr (setModulFreq v s)"
| "call np (M_setLpar v) s = Inr (setLpar v s)"
| "call np (M_setRubiFreq v) s = Inr (setRubiFreq v s)"
| "call np (M_setFrRange a b) s = Inr (setFrRange a b s)"
| "call np (M_setFRssRange a b) s = Inr (setFRssRange a b s)"
| "call np (M_computeLST A z) s = bnd (computeLST np s A z) (\<lambda>r. Inr s)"
| "call np M_LST s = LST np s"
| "call np M_effectiveHeight s = effectiveHeight s"
| "call np M_effectiveHeightTop s = effectiveHeightTop s"
| "call np M_effectivePosition s = effectivePosition s"
| "call np M_gTop s = gTop_method s"
| "call np (M_gTopCor tide load baro polar) s = gTopCor_method tide load baro polar s"

fun calls :: "linalg \<Rightarrow> invocation list \<Rightarrow> Fall \<Rightarrow> error + Fall" where
  "calls np [] s = Inr s"
| "calls np (m # ms) s = bnd (call np m s) (calls np ms)"

section \<open>numpy on systems with one unknown\<close>

text \<open>
  For a matrix with a single column \<open>a\<close> the two routines have closed forms in exact
  arithmetic, which the examples below run. \<open>lstsq\<close> refuses a right-hand side of another
  length; its solution is \<open>a\<cdot>z / a\<cdot>a\<close> (zero for a zero column), and it reports the
  residual sum only for a non-zero column with more than one row. The inverse of the
  one-by-one matrix \<open>m\<close> is \<open>1/m\<close>, and a zero \<open>m\<close> is singular.
\<close>

definition lstsq_1col :: "matrix \<Rightarrow> real list \<Rightarrow> error + (real list \<times> real list)" where
  "lstsq_1col A z =
     (if length (rows A) \<noteq> length z then Inl LinAlgError
      else
        let a = map hd (rows A);
            aa = np_dot a a;
            x0 = (if aa = 0 then 0 else np_dot a z / aa);
            r = map2 (\<lambda>zi ai. zi - ai * x0) z a
        in Inr ([x0], if aa \<noteq> 0 \<and> 1 < length z then [np_dot r r] else []))"

definition inv_1x1 :: "matrix \<Rightarrow> error + matrix" where
  "inv_1x1 M =
     (let m = hd (hd (rows M))
      in if m = 0 then Inl LinAlgError else Inr (Matrix 1 [[1 / m]]))"

definition np_1col :: linalg where
  "np_1col = \<lparr> lstsq = lstsq_1col, inv = inv_1x1 \<rparr>"

section \<open>Basic facts\<close>

lemma bnd_simps: "bnd (Inr v) k = k v" "bnd (Inl e) k = Inl e"
  by (simp_all add: bnd_def)

lemma bnd_InrE:
  assumes "bnd m k = Inr r"
  obtains v where "m = Inr v" "k v = Inr r"
  using assms by (cases m) (simp_all add: bnd_def)

lemma attr_simps: "attr (Some v) = Inr v" "attr None = Inl AttributeError"
  by (simp_all add: attr_def)

lemma np_add_Fin_chain:
  "np_add (np_add (np_add (np_add g (Fin a)) (Fin b)) (Fin d)) (Fin e)
   = np_add g (Fin (a + b + d + e))"
  by (cases g) simp_all

lemma foldl_np_add_Fin: "foldl np_add (Fin a) (map Fin zs) = Fin (a + sum_list zs)"
  by (induction zs arbitrary: a) (simp_all add: add.assoc)

lemma map2_np_mul_Fin:
  "map2 np_mul (map Fin xs) (map Fin ys) = map Fin (map2 (*) xs ys)"
  by (induction xs arbitrary: ys) (auto simp: zip_Cons1 split: list.splits)

lemma np_dot_f_Fin: "np_dot_f (map Fin xs) (map Fin ys) = Fin (np_dot xs ys)"
  by (simp add: np_dot_f_def np_dot_def map2_np_mul_Fin foldl_np_add_Fin del: map_map)

lemma broadcast_scalar: "broadcast g xs [y] = Inr (map (\<lambda>a. g a y) xs)"
  by (cases xs; cases "tl xs") (auto simp: broadcast_def)

lemma broadcast_same:
  "length xs = length ys \<Longrightarrow> broadcast g xs ys = Inr (map2 g xs ys)"
  by (simp add: broadcast_def)

section \<open>The statistics range setter\<close>

text \<open>
  C10. \<open>setFRssRange\<close> takes the upper bound first: called with two arguments, it stores
  the first unchanged as \<open>frmaxss\<close> and the second, reduced by one, as \<open>frminss\<close>, and
  changes nothing else. \<open>setFrRange\<close> takes the lower bound first and reduces that one.
  So the same pair \<open>(lo, hi)\<close> passed by position to both ends up as \<open>frmin = lo - 1\<close>,
  \<open>frmax = hi\<close> but \<open>frmaxss = lo\<close>, \<open>frminss = hi - 1\<close>; no check and no exception.
\<close>

theorem setFRssRange_order:
  "setFRssRange lo hi s = s\<lparr>frmaxss := Some lo, frminss := Some (hi - 1)\<rparr>
   \<and> frmaxss (setFRssRange lo hi s) = Some lo
   \<and> frminss (setFRssRange lo hi s) = Some (hi - 1)
   \<and> frmin (setFrRange lo hi s) = Some (lo - 1)
   \<and> frmax (setFrRange lo hi s) = Some hi"
  by (simp add: setFRssRange_def setFrRange_def)

section \<open>Derived quantities of a fitted drop\<close>

text \<open>
  C3. On an instance that holds the fit outputs \<open>g0_Gr\<close> (the gradient-corrected
  \<open>x_grad[2]\<close>), \<open>g0\<close>, \<open>z0\<close>, \<open>v0\<close> and a non-zero \<open>gradient\<close>, and on which \<open>gTop\<close> and
  \<open>gTopCor\<close> have not been called yet, the calls \<open>effectiveHeight\<close>,
  \<open>effectiveHeightTop\<close>, \<open>effectivePosition\<close>, \<open>gTop\<close>, \<open>gTopCor\<close> in this order all
  succeed and leave exactly
  \<open>h = -(g0_Gr - g0)/gradient\<close>, \<open>Grad = v0^2/(2 g0_Gr)\<close>, \<open>htop = h + Grad\<close>,
  \<open>effectiveZ = h + z0\<close>, \<open>gTop = g0_Gr - gradient Grad\<close> and
  \<open>gTopCor = gTop + 10 (tide + load + baro + polar)\<close>,
  the quotient in \<open>Grad\<close> being numpy's (not a number when \<open>g0_Gr\<close> is zero).
\<close>

theorem derived_quantities:
  assumes "g0_Gr s = Some ga" "g0 s = Some g" "z0 s = Some z" "v0 s = Some v"
    and "gradient s = Some gr" and "gr \<noteq> 0"
    and "gTop s = Method" "gTopCor s = Method"
  shows "bnd (effectiveHeight s) (\<lambda>s1.
         bnd (effectiveHeightTop s1) (\<lambda>s2.
         bnd (effectivePosition s2) (\<lambda>s3.
         bnd (gTop_method s3) (gTopCor_method tide load baro polar))))
       = Inr (s\<lparr>h := Some (Fin (- (ga - g) / gr)),
                Grad := Some (np_div (v ^ 2) (2 * ga)),
                htop := Some (np_add (Fin (- (ga - g) / gr)) (np_div (v ^ 2) (2 * ga))),
                effectiveZ := Some (Fin (- (ga - g) / gr + z)),
                gTop := Value (np_sub (Fin ga) (np_mul (Fin gr) (np_div (v ^ 2) (2 * ga)))),
                gTopCor := Value (np_add (np_sub (Fin ga) (np_mul (Fin gr) (np_div (v ^ 2) (2 * ga))))
                                    (Fin (10 * (tide + load + baro + polar))))\<rparr>)"
  using assms
  by (simp add: effectiveHeight_def effectiveHeightTop_def effectivePosition_def
      gTop_method_def gTopCor_method_def bnd_simps attr_simps np_div_def Let_def
      np_add_Fin_chain distrib_left)

theorem derived_quantities_witness:
  "(- 3000 :: real) \<noteq> 0 \<and>
   bnd (effectiveHeight (init\<lparr>g0_Gr := Some 9800000500, g0 := Some 9800000000,
           z0 := Some 3, v0 := Some 140000, gradient := Some (- 3000)\<rparr>)) (\<lambda>s1.
   bnd (effectiveHeightTop s1) (\<lambda>s2.
   bnd (effectivePosition s2) (\<lambda>s3.
   bnd (gTop_method s3) (gTopCor_method 1 2 3 4))))
   = Inr (init\<lparr>g0_Gr := Some 9800000500, g0 := Some 9800000000,
           z0 := Some 3, v0 := Some 140000, gradient := Some (- 3000),
           h := Some (Fin (1 / 6)), Grad := Some (Fin (140000 ^ 2 / 19600001000)),
           htop := Some (Fin (1 / 6 + 140000 ^ 2 / 19600001000)),
           effectiveZ := Some (Fin (1 / 6 + 3)),
           gTop := Value (Fin (9800000500 + 3000 * (140000 ^ 2 / 19600001000))),
           gTopCor := Value (Fin (9800000500 + 3000 * (140000 ^ 2 / 19600001000) + 100))\<rparr>)"
  using derived_quantities [of "init\<lparr>g0_Gr := Some 9800000500, g0 := Some 9800000000,
           z0 := Some 3, v0 := Some 140000, gradient := Some (- 3000)\<rparr>"
           9800000500 9800000000 3 140000 "- 3000" 1 2 3 4]
  by (simp add: init_def np_div_def np_sub_def)

text \<open>With a non-zero \<open>g0_Gr\<close> as well, every derived quantity is a finite number.\<close>

lemma derived_quantities_finite:
  assumes "g0_Gr s = Some ga" "g0 s = Some g" "z0 s = Some z" "v0 s = Some v"
    and "gradient s = Some gr" and "gr \<noteq> 0" and "ga \<noteq> 0"
    and "gTop s = Method" "gTopCor s = Method"
  shows "bnd (effectiveHeight s) (\<lambda>s1.
         bnd (effectiveHeightTop s1) (\<lambda>s2.
         bnd (effectivePosition s2) (\<lambda>s3.
         bnd (gTop_method s3) (gTopCor_method tide load baro polar))))
       = Inr (s\<lparr>h := Some (Fin (- (ga - g) / gr)),
                Grad := Some (Fin (v ^ 2 / (2 * ga))),
                htop := Some (Fin (- (ga - g) / gr + v ^ 2 / (2 * ga))),
                effectiveZ := Some (Fin (- (ga - g) / gr + z)),
                gTop := Value (Fin (ga - gr * (v ^ 2 / (2 * ga)))),
                gTopCor := Value (Fin (ga - gr * (v ^ 2 / (2 * ga))
                                    + 10 * (tide + load + baro + polar)))\<rparr>)"
  using assms
  by (simp add: effectiveHeight_def effectiveHeightTop_def effectivePosition_def
      gTop_method_def gTopCor_method_def bnd_simps attr_simps np_div_def Let_def
      np_sub_def distrib_left)

section \<open>The method gTop runs once\<close>

text \<open>No method assigns the attribute \<open>gTop\<close> except \<open>gTop\<close> itself.\<close>

lemma LST_keeps_gTop:
  assumes "LST np s = Inr s'"
  shows "gTop s' = gTop s"
  using assms unfolding LST_def Let_def
  by (auto elim!: bnd_InrE split: prod.splits if_splits)

lemma call_keeps_gTop:
  assumes "call np m s = Inr s'" and "gTop s = Value v"
  shows "gTop s' = Value v"
proof (cases m)
  case M_LST
  with assms LST_keeps_gTop [of np s s'] show ?thesis by simp
qed (use assms in \<open>auto simp: setFringe_def setLambda_def setScaleFactor_def setMultiplex_def
      setGradient_def setModulFreq_def setLpar_def setRubiFreq_def setFrRange_def
      setFRssRange_def effectiveHeight_def effectiveHeightTop_def effectivePosition_def
      gTop_method_def gTopCor_method_def Let_def
      elim!: bnd_InrE split: slot.splits\<close>)

lemma calls_keep_gTop:
  assumes "calls np ms s = Inr s'" and "gTop s = Value v"
  shows "gTop s' = Value v"
  using assms
proof (induction ms arbitrary: s)
  case Nil
  then show ?case by simp
next
  case (Cons m ms)
  from Cons.prems(1) obtain s1 where 1: "call np m s = Inr s1" and 2: "calls np ms s1 = Inr s'"
    by (auto elim: bnd_InrE)
  from call_keeps_gTop [OF 1 Cons.prems(2)] have "gTop s1 = Value v" .
  with Cons.IH [OF 2] show ?case by simp
qed

text \<open>
  C9. A successful call of \<open>gTop\<close> leaves a number in the instance attribute \<open>gTop\<close>.
  A second call raises \<open>TypeError\<close>, at once and also after any further sequence of
  successful method calls on the instance: \<open>gTop\<close> is computed at most once.
\<close>

theorem gTop_once:
  assumes "gTop_method s = Inr s1" and "calls np ms s1 = Inr s2"
  shows "(\<exists>v. gTop s1 = Value v) \<and> gTop_method s1 = Inl TypeError
         \<and> gTop_method s2 = Inl TypeError"
proof -
  from assms(1) obtain v where v: "gTop s1 = Value v"
    by (auto simp: gTop_method_def elim!: bnd_InrE split: slot.splits)
  from calls_keep_gTop [OF assms(2) v] have "gTop s2 = Value v" .
  with v show ?thesis by (simp add: gTop_method_def)
qed

theorem gTop_once_witness:
  "gTop_method (init\<lparr>gradient := Some 1, g0_Gr := Some 2, Grad := Some (Fin 1)\<rparr>)
     = Inr (init\<lparr>gradient := Some 1, g0_Gr := Some 2, Grad := Some (Fin 1), gTop := Value (Fin 1)\<rparr>)
   \<and> calls np_1col [M_gTopCor 1 2 3 4, M_setGradient 5]
        (init\<lparr>gradient := Some 1, g0_Gr := Some 2, Grad := Some (Fin 1), gTop := Value (Fin 1)\<rparr>)
     = Inr (init\<lparr>gradient := Some (- 100 * 5 * (1 / 10 ^ 8)), g0_Gr := Some 2, Grad := Some (Fin 1),
              gTop := Value (Fin 1), gTopCor := Value (Fin 101)\<rparr>)
   \<and> gTop_method (init\<lparr>gradient := Some 1, g0_Gr := Some 2, Grad := Some (Fin 1), gTop := Value (Fin 1)\<rparr>)
     = Inl TypeError
   \<and> gTop_method (init\<lparr>gradient := Some (- 100 * 5 * (1 / 10 ^ 8)), g0_Gr := Some 2, Grad := Some (Fin 1),
              gTop := Value (Fin 1), gTopCor := Value (Fin 101)\<rparr>)
     = Inl TypeError"
proof -
  have a: "gTop_method (init\<lparr>gradient := Some 1, g0_Gr := Some 2, Grad := Some (Fin 1)\<rparr>)
     = Inr (init\<lparr>gradient := Some 1, g0_Gr := Some 2, Grad := Some (Fin 1), gTop := Value (Fin 1)\<rparr>)"
    by (simp add: gTop_method_def init_def bnd_simps attr_simps np_sub_def)
  have b: "calls np_1col [M_gTopCor 1 2 3 4, M_setGradient 5]
        (init\<lparr>gradient := Some 1, g0_Gr := Some 2, Grad := Some (Fin 1), gTop := Value (Fin 1)\<rparr>)
     = Inr (init\<lparr>gradient := Some (- 100 * 5 * (1 / 10 ^ 8)), g0_Gr := Some 2, Grad := Some (Fin 1),
              gTop := Value (Fin 1), gTopCor := Value (Fin 101)\<rparr>)"
    by (simp add: init_def effectiveHeightTop_def gTopCor_method_def setGradient_def
        bnd_simps attr_simps)
  from gTop_once [OF a b] a b show ?thesis by simp
qed

section \<open>Statistics of a solve\<close>

lemma np_1col_simps: "lstsq np_1col = lstsq_1col" "inv np_1col = inv_1x1"
  by (simp_all add: np_1col_def)

lemma upt_1: "[0..<1] = [0]"
  by (simp add: upt_rec)

lemma replicate_NonFin:
  "map np_sqrt (map (\<lambda>a. np_mul (Fin a) NonFin) ds) = replicate (length ds) NonFin"
  by (induction ds) simp_all

text \<open>
  C2. Let \<open>A\<close> have \<open>n\<close> rows and \<open>k\<close> columns and \<open>z\<close> have length \<open>n\<close>, with
  \<open>n = frmax - frmin\<close> and \<open>n - k - 1 > 0\<close>. Let \<open>lstsq\<close> give the solution \<open>x\<close> with one
  residual sum \<open>ssr\<close>, and let the inversion of \<open>A\<^sup>T A\<close> succeed with \<open>C\<close>; as for any
  least-squares problem, \<open>ssr\<close> and the diagonal of \<open>C\<close> are not negative. Then
  \<open>computeLST\<close> returns, next to \<open>x\<close> and \<open>C\<close>: the variance factor \<open>ssr / (n - k - 1)\<close>,
  the standard deviations \<open>sqrt (C\<^sub>j\<^sub>j \<cdot> m02)\<close>, their dot product with themselves, and
  the residual vector \<open>z - A x\<close>.
\<close>

theorem computeLST_statistics:
  assumes sol: "lstsq np A z = Inr (x, [ssr])"
    and cov: "inv np (np_dot_AT_A A) = Inr C"
    and rng: "frmax s = Some fmax" "frmin s = Some fmin"
    and n: "fmax - fmin = int (length (rows A))"
    and dof: "0 < int (length (rows A)) - int (ncols A) - 1"
    and shp: "length x = ncols A" "length z = length (rows A)"
    and pos: "0 \<le> ssr" "list_all (\<lambda>d. 0 \<le> d) (np_diag C)"
  shows "computeLST np s A z =
     Inr ((x, [ssr]), C,
          [Fin (ssr / real_of_int (int (length (rows A)) - int (ncols A) - 1))],
          Fin (np_dot
            (map (\<lambda>d. sqrt (d * (ssr / real_of_int (int (length (rows A)) - int (ncols A) - 1)))) (np_diag C))
            (map (\<lambda>d. sqrt (d * (ssr / real_of_int (int (length (rows A)) - int (ncols A) - 1)))) (np_diag C))),
          map (\<lambda>d. Fin (sqrt (d * (ssr / real_of_int (int (length (rows A)) - int (ncols A) - 1))))) (np_diag C),
          map2 (-) z (map (\<lambda>r. np_dot r x) (rows A)))"
proof -
  define dv where "dv = real_of_int (int (length (rows A)) - int (ncols A) - 1)"
  define sd where "sd = map (\<lambda>d. sqrt (d * (ssr / dv))) (np_diag C)"
  have dv: "0 < dv" using dof by (simp add: dv_def)
  have m: "np_div ssr (real_of_int (fmax - fmin - int (ncols A) - 1)) = Fin (ssr / dv)"
    using dv n by (simp add: np_div_def dv_def)
  have nonneg: "\<And>d. d \<in> set (np_diag C) \<Longrightarrow> 0 \<le> d * (ssr / dv)"
    using pos dv by (auto simp: list_all_iff)
  have pr: "np_multiply (np_diag C) [Fin (ssr / dv)]
            = Inr (map (\<lambda>a. np_mul (Fin a) (Fin (ssr / dv))) (np_diag C))"
    by (simp only: np_multiply_def broadcast_scalar)
  have sq: "map np_sqrt (map (\<lambda>a. np_mul (Fin a) (Fin (ssr / dv))) (np_diag C)) = map Fin sd"
    using nonneg by (auto simp: not_less sd_def)
  have mm: "np_matmul A x = Inr (map (\<lambda>r. np_dot r x) (rows A))"
    using shp by (simp add: np_matmul_def)
  have sb: "np_subtract z (map (\<lambda>r. np_dot r x) (rows A))
            = Inr (map2 (-) z (map (\<lambda>r. np_dot r x) (rows A)))"
    using shp by (simp add: np_subtract_def broadcast_same)
  have "computeLST np s A z =
     Inr ((x, [ssr]), C, [Fin (ssr / dv)], Fin (np_dot sd sd), map Fin sd,
          map2 (-) z (map (\<lambda>r. np_dot r x) (rows A)))"
    unfolding computeLST_def
    by (simp only: sol cov rng m pr sq mm sb bnd_simps attr_simps Let_def np_dot_f_Fin
        snd_conv fst_conv list.map)
  then show ?thesis
    by (simp add: sd_def dv_def o_def)
qed

theorem computeLST_statistics_witness:
  "lstsq np_1col (Matrix 1 [[1], [1], [1]]) [1, 2, 3] = Inr ([2], [2])
   \<and> inv np_1col (np_dot_AT_A (Matrix 1 [[1], [1], [1]])) = Inr (Matrix 1 [[1 / 3]])
   \<and> computeLST np_1col (init\<lparr>frmin := Some 0, frmax := Some 3\<rparr>) (Matrix 1 [[1], [1], [1]]) [1, 2, 3]
     = Inr (([2], [2]), Matrix 1 [[1 / 3]], [Fin 2], Fin (2 / 3), [Fin (sqrt (2 / 3))], [- 1, 0, 1])"
proof -
  have a: "lstsq np_1col (Matrix 1 [[1], [1], [1]]) [1, 2, 3] = Inr ([2], [2])"
    by (simp add: np_1col_simps lstsq_1col_def np_dot_def)
  have b: "inv np_1col (np_dot_AT_A (Matrix 1 [[1], [1], [1]])) = Inr (Matrix 1 [[1 / 3]])"
    by (simp add: np_1col_simps inv_1x1_def np_dot_AT_A_def upt_1)
  from computeLST_statistics [of np_1col "Matrix 1 [[1], [1], [1]]" "[1, 2, 3]" "[2]" 2
      "Matrix 1 [[1 / 3]]" "init\<lparr>frmin := Some 0, frmax := Some 3\<rparr>" 3 0, OF a b]
  have "computeLST np_1col (init\<lparr>frmin := Some 0, frmax := Some 3\<rparr>) (Matrix 1 [[1], [1], [1]]) [1, 2, 3]
     = Inr (([2], [2]), Matrix 1 [[1 / 3]], [Fin 2], Fin (2 / 3), [Fin (sqrt (2 / 3))], [- 1, 0, 1])"
    by (simp add: np_diag_def np_dot_def)
  with a b show ?thesis by simp
qed

section \<open>A solve without degrees of freedom\<close>

text \<open>
  C7, as the code has it. \<open>computeLST\<close> does not look at the degrees of freedom and the
  program defines no \<open>UnderdeterminedFitError\<close>. When \<open>frmax - frmin - k - 1\<close> is zero and
  numpy's \<open>lstsq\<close> and inversion succeed, the solve does not fail: it returns the
  solution, the covariance matrix and the residuals, and numpy's division by zero makes
  the variance factor and every standard deviation \<open>inf\<close> or \<open>nan\<close>.
\<close>

theorem computeLST_zero_dof:
  assumes sol: "lstsq np A z = Inr (x, [ssr])"
    and cov: "inv np (np_dot_AT_A A) = Inr C"
    and rng: "frmax s = Some fmax" "frmin s = Some fmin"
    and dof: "fmax - fmin - int (ncols A) - 1 = 0"
    and shp: "length x = ncols A" "length z = length (rows A)"
  shows "computeLST np s A z =
     Inr ((x, [ssr]), C, [NonFin],
          np_dot_f (replicate (length (np_diag C)) NonFin) (replicate (length (np_diag C)) NonFin),
          replicate (length (np_diag C)) NonFin,
          map2 (-) z (map (\<lambda>r. np_dot r x) (rows A)))"
proof -
  have m: "np_div ssr (real_of_int (fmax - fmin - int (ncols A) - 1)) = NonFin"
    using dof by (simp add: np_div_def)
  have pr: "np_multiply (np_diag C) [NonFin]
            = Inr (map (\<lambda>a. np_mul (Fin a) NonFin) (np_diag C))"
    by (simp only: np_multiply_def broadcast_scalar)
  have mm: "np_matmul A x = Inr (map (\<lambda>r. np_dot r x) (rows A))"
    using shp by (simp add: np_matmul_def)
  have sb: "np_subtract z (map (\<lambda>r. np_dot r x) (rows A))
            = Inr (map2 (-) z (map (\<lambda>r. np_dot r x) (rows A)))"
    using shp by (simp add: np_subtract_def broadcast_same)
  show ?thesis
    unfolding computeLST_def
    by (simp only: sol cov rng m pr mm sb bnd_simps attr_simps Let_def replicate_NonFin
        snd_conv fst_conv list.map)
qed

theorem computeLST_zero_dof_witness:
  "lstsq np_1col (Matrix 1 [[1], [1]]) [1, 3] = Inr ([2], [2])
   \<and> inv np_1col (np_dot_AT_A (Matrix 1 [[1], [1]])) = Inr (Matrix 1 [[1 / 2]])
   \<and> (2::int) - 0 - int (ncols (Matrix 1 [[1], [1]])) - 1 = 0
   \<and> computeLST np_1col (init\<lparr>frmin := Some 0, frmax := Some 2\<rparr>) (Matrix 1 [[1], [1]]) [1, 3]
     = Inr (([2], [2]), Matrix 1 [[1 / 2]], [NonFin], NonFin, [NonFin], [- 1, 1])"
proof -
  have a: "lstsq np_1col (Matrix 1 [[1], [1]]) [1, 3] = Inr ([2], [2])"
    by (simp add: np_1col_simps lstsq_1col_def np_dot_def)
  have b: "inv np_1col (np_dot_AT_A (Matrix 1 [[1], [1]])) = Inr (Matrix 1 [[1 / 2]])"
    by (simp add: np_1col_simps inv_1x1_def np_dot_AT_A_def upt_1)
  from computeLST_zero_dof [of np_1col "Matrix 1 [[1], [1]]" "[1, 3]" "[2]" 2
      "Matrix 1 [[1 / 2]]" "init\<lparr>frmin := Some 0, frmax := Some 2\<rparr>" 2 0, OF a b]
  have "computeLST np_1col (init\<lparr>frmin := Some 0, frmax := Some 2\<rparr>) (Matrix 1 [[1], [1]]) [1, 3]
     = Inr (([2], [2]), Matrix 1 [[1 / 2]], [NonFin], NonFin, [NonFin], [- 1, 1])"
    by (simp add: np_diag_def np_dot_def np_dot_f_def)
  with a b show ?thesis by simp
qed

text \<open>
  Two rows, one unknown: \<open>n - k - 1 = 0\<close>. The solve of \<open>[[1], [1]] x = [1, 3]\<close> returns
  \<open>x = 2\<close> and the residuals \<open>[-1, 1]\<close> instead of failing.
\<close>

theorem computeLST_zero_dof_counterexample:
  "computeLST np_1col (init\<lparr>frmin := Some 0, frmax := Some 2\<rparr>) (Matrix 1 [[1], [1]]) [1, 3]
     = Inr (([2], [2]), Matrix 1 [[1 / 2]], [NonFin], NonFin, [NonFin], [- 1, 1])"
  by (simp add: computeLST_def np_1col_simps lstsq_1col_def inv_1x1_def np_dot_AT_A_def
      np_dot_def upt_1 bnd_simps attr_simps init_def np_div_def np_multiply_def broadcast_def
      np_diag_def np_dot_f_def np_matmul_def np_subtract_def Let_def)

section \<open>The design matrices\<close>

text \<open>
  What a successful run of the loop has built: for every fringe \<open>i\<close> the position
  \<open>z1[i]\<close>, the time tag \<open>tt[i]\<close> and row \<open>i\<close> of each of the three matrices.
\<close>

lemma fringe_loop_rows:
  assumes "fringe_loop s fr = Inr (z1, tt', A_grad1, A1, A4)" and "i < length fr"
  shows "\<exists>Lam mp sf rubi fm gr lp.
           Lambda s = Some Lam \<and> multiplex s = Some mp \<and> scaleFactor s = Some sf
           \<and> rubiFreq s = Some rubi \<and> fmod s = Some fm \<and> gradient s = Some gr
           \<and> Lpar s = Some lp \<and> rubi \<noteq> 0 \<and> c s \<noteq> 0 \<and> lp \<noteq> 0
           \<and> length z1 = length fr \<and> length tt' = length fr
           \<and> length (rows A_grad1) = length fr \<and> length (rows A1) = length fr
           \<and> length (rows A4) = length fr
           \<and> z1 ! i = z1_at Lam mp sf i
           \<and> tt' ! i = tt_at rubi (ksol s) (c s) (fr ! i) (z1 ! i)
           \<and> rows A_grad1 ! i = line_grad fm gr (c s) lp (tt' ! i) (z1 ! i)
           \<and> rows A1 ! i = line fm (c s) lp (tt' ! i) (z1 ! i)
           \<and> rows A4 ! i = line4 lp (tt' ! i) (z1 ! i)"
proof -
  from assms(2) have ne: "fr \<noteq> []" by auto
  from assms(1) ne show ?thesis
    unfolding fringe_loop_def
    using assms(2)
    by (auto simp: attr_def Let_def elim!: bnd_InrE split: if_splits option.splits)
qed

text \<open>
  The stages of a successful \<open>LST\<close>: the loop, the solves over the fit range of the
  matrix without and with gradient, the inputs of the regression with modulation and its
  solve, and the attributes taken from the two solutions.
\<close>

lemma LST_stages:
  assumes "LST np s = Inr s'"
  shows "\<exists>fr z1 tt' A_grad1 A1 A4 lo hi x xg col2 zgrad r1 r2 r4.
     fringe s = Some fr \<and> fringe_loop s fr = Inr (z1, tt', A_grad1, A1, A4)
     \<and> frmin s = Some lo \<and> frmax s = Some hi
     \<and> computeLST np s (slice_rows lo hi A1) (py_slice lo hi z1) = Inr (x, r1)
     \<and> computeLST np s (slice_rows lo hi A_grad1) (py_slice lo hi z1) = Inr (xg, r2)
     \<and> modulation s (fst x) (fst xg) z1 tt' A_grad1 = Inr (col2, zgrad)
     \<and> computeLST np s (slice_rows lo hi (set_column 2 col2 A4)) (py_slice lo hi zgrad) = Inr r4
     \<and> tt s' = Some tt' \<and> x_grad s' = Some xg
     \<and> g0 s' = Some (fst x ! 2) \<and> g0_Gr s' = Some (fst xg ! 2)
     \<and> z0 s' = Some (fst x ! 0) \<and> v0 s' = Some (fst x ! 1)"
  using assms unfolding LST_def Let_def
  by (auto simp: attr_def nth_py_def elim!: bnd_InrE split: prod.splits if_splits option.splits)

text \<open>
  One fringe with time tag \<open>1\<close>, at the modulation frequency \<open>1/4\<close>: the first angle is a
  quarter turn and the second, at position \<open>0\<close>, is zero.
\<close>

lemma fringe_loop_example:
  "fringe_loop (init\<lparr>Lambda := Some 1, scaleFactor := Some 1, multiplex := Some 1,
       gradient := Some 1, fmod := Some (1 / 4), Lpar := Some 1, rubiFreq := Some (10 ^ 7)\<rparr>) [1]
   = Inr ([0], [1],
          Matrix 9 [[1, 7 / 6, 13 / 24, 0, 1, 0, 0, 0, 1]],
          Matrix 9 [[1, 1, 1 / 2, 0, 1, 0, 0, 0, 1]],
          Matrix 5 [[1, 1, 0, 0, 1]])"
  by (simp add: fringe_loop_def init_def bnd_simps attr_simps z1_at_def tt_at_def line_def
      line_grad_def line4_def Let_def upt_1)

text \<open>
  C1, as the code has it. For every fringe \<open>i\<close>, columns 4 to 7 of the matrix without
  gradient are, in this order, \<open>sin \<phi>1 sin \<phi>2\<close>, \<open>sin \<phi>1 cos \<phi>2\<close>, \<open>cos \<phi>1 sin \<phi>2\<close>,
  \<open>cos \<phi>1 cos \<phi>2\<close> with \<open>\<phi>1 = 2 \<pi> fmod tt[i]\<close> and \<open>\<phi>2 = 2 \<pi> fmod 2 z1[i] / c\<close>, and the
  matrix with gradient has the same four columns.
\<close>

theorem design_columns_4_7:
  assumes "fringe_loop s fr = Inr (z1, tt', A_grad1, A1, A4)" and "i < length fr"
    and "fmod s = Some fm"
  shows "take 4 (drop 3 (rows A1 ! i)) =
           [sin (2 * pi * fm * (tt' ! i)) * sin (2 * pi * fm * 2 * (z1 ! i) / c s),
            sin (2 * pi * fm * (tt' ! i)) * cos (2 * pi * fm * 2 * (z1 ! i) / c s),
            cos (2 * pi * fm * (tt' ! i)) * sin (2 * pi * fm * 2 * (z1 ! i) / c s),
            cos (2 * pi * fm * (tt' ! i)) * cos (2 * pi * fm * 2 * (z1 ! i) / c s)]
       \<and> take 4 (drop 3 (rows A_grad1 ! i)) = take 4 (drop 3 (rows A1 ! i))"
  using fringe_loop_rows [OF assms(1,2)] assms(3)
  by (auto simp: line_def line_grad_def Let_def)

theorem design_columns_4_7_witness:
  "take 4 (drop 3 (rows (Matrix 9 [[1, 1, 1 / 2, 0, 1, 0, 0, 0, 1]]) ! 0)) =
     [sin (2 * pi * (1 / 4) * 1) * sin (2 * pi * (1 / 4) * 2 * 0 / c init),
      sin (2 * pi * (1 / 4) * 1) * cos (2 * pi * (1 / 4) * 2 * 0 / c init),
      cos (2 * pi * (1 / 4) * 1) * sin (2 * pi * (1 / 4) * 2 * 0 / c init),
      cos (2 * pi * (1 / 4) * 1) * cos (2 * pi * (1 / 4) * 2 * 0 / c init)]
   \<and> take 4 (drop 3 (rows (Matrix 9 [[1, 7 / 6, 13 / 24, 0, 1, 0, 0, 0, 1]]) ! 0)) =
       take 4 (drop 3 (rows (Matrix 9 [[1, 1, 1 / 2, 0, 1, 0, 0, 0, 1]]) ! 0))"
  using design_columns_4_7 [OF fringe_loop_example, of 0 "1 / 4"]
  by (simp add: init_def)

text \<open>
  At the fringe of the example the order \<open>sin cos\<close>, \<open>cos cos\<close>, \<open>cos sin\<close>, \<open>sin sin\<close> would
  be \<open>[1, 0, 0, 0]\<close>, and columns 4 to 7 of both matrices are \<open>[0, 1, 0, 0]\<close>.
\<close>

theorem design_columns_4_7_counterexample:
  "fringe_loop (init\<lparr>Lambda := Some 1, scaleFactor := Some 1, multiplex := Some 1,
       gradient := Some 1, fmod := Some (1 / 4), Lpar := Some 1, rubiFreq := Some (10 ^ 7)\<rparr>) [1]
   = Inr ([0], [1],
          Matrix 9 [[1, 7 / 6, 13 / 24, 0, 1, 0, 0, 0, 1]],
          Matrix 9 [[1, 1, 1 / 2, 0, 1, 0, 0, 0, 1]],
          Matrix 5 [[1, 1, 0, 0, 1]])
   \<and> [sin (2 * pi * (1 / 4) * 1) * cos (2 * pi * (1 / 4) * 2 * 0 / c init),
       cos (2 * pi * (1 / 4) * 1) * cos (2 * pi * (1 / 4) * 2 * 0 / c init),
       cos (2 * pi * (1 / 4) * 1) * sin (2 * pi * (1 / 4) * 2 * 0 / c init),
       sin (2 * pi * (1 / 4) * 1) * sin (2 * pi * (1 / 4) * 2 * 0 / c init)] = [1, 0, 0, 0]
   \<and> take 4 (drop 3 (rows (Matrix 9 [[1, 1, 1 / 2, 0, 1, 0, 0, 0, 1]]) ! 0)) = [0, 1, 0, 0 :: real]
   \<and> take 4 (drop 3 (rows (Matrix 9 [[1, 7 / 6, 13 / 24, 0, 1, 0, 0, 0, 1]]) ! 0)) = [0, 1, 0, 0 :: real]
   \<and> take 4 (drop 3 (rows (Matrix 9 [[1, 1, 1 / 2, 0, 1, 0, 0, 0, 1]]) ! 0)) \<noteq>
      [sin (2 * pi * (1 / 4) * 1) * cos (2 * pi * (1 / 4) * 2 * 0 / c init),
       cos (2 * pi * (1 / 4) * 1) * cos (2 * pi * (1 / 4) * 2 * 0 / c init),
       cos (2 * pi * (1 / 4) * 1) * sin (2 * pi * (1 / 4) * 2 * 0 / c init),
       sin (2 * pi * (1 / 4) * 1) * sin (2 * pi * (1 / 4) * 2 * 0 / c init)]"
  using fringe_loop_example by simp

text \<open>
  C5. For every fringe \<open>i\<close> the rows of both matrices have nine entries; the matrix with
  gradient has \<open>t + (gradient/6) t^3\<close> in its second and \<open>t^2/2 + (gradient/24) t^4\<close> in its
  third column, where the matrix without gradient has \<open>t\<close> and \<open>t^2/2\<close>, with \<open>t = tt[i]\<close>;
  the first column and columns 4 to 9 of the two matrices are equal.
\<close>

theorem gradient_columns:
  assumes "fringe_loop s fr = Inr (z1, tt', A_grad1, A1, A4)" and "i < length fr"
    and "gradient s = Some gr"
  shows "length (rows A_grad1 ! i) = 9 \<and> length (rows A1 ! i) = 9
       \<and> rows A_grad1 ! i ! 1 = tt' ! i + (gr / 6) * (tt' ! i) ^ 3
       \<and> rows A_grad1 ! i ! 2 = (tt' ! i) ^ 2 / 2 + (gr / 24) * (tt' ! i) ^ 4
       \<and> rows A1 ! i ! 1 = tt' ! i
       \<and> rows A1 ! i ! 2 = (tt' ! i) ^ 2 / 2
       \<and> rows A_grad1 ! i ! 0 = rows A1 ! i ! 0
       \<and> drop 3 (rows A_grad1 ! i) = drop 3 (rows A1 ! i)"
  using fringe_loop_rows [OF assms(1,2)] assms(3)
  by (auto simp: line_def line_grad_def Let_def)

theorem gradient_columns_witness:
  "rows (Matrix 9 [[1, 7 / 6, 13 / 24, 0, 1, 0, 0, 0, 1]]) ! 0 ! 1 = (1::real) + (1 / 6) * 1 ^ 3
   \<and> rows (Matrix 9 [[1, 7 / 6, 13 / 24, 0, 1, 0, 0, 0, 1]]) ! 0 ! 2 = (1::real) ^ 2 / 2 + (1 / 24) * 1 ^ 4
   \<and> drop 3 (rows (Matrix 9 [[1, 7 / 6, 13 / 24, 0, 1, 0, 0, 0, 1]]) ! 0)
       = drop 3 (rows (Matrix 9 [[1, 1, 1 / 2, 0, 1, 0, 0, 0, 1 :: real]]) ! 0)"
  using gradient_columns [OF fringe_loop_example, of 0 1]
  by (simp add: init_def)

section \<open>The regression with modulation\<close>

text \<open>
  C4. For every fringe \<open>i\<close> and a non-zero gradient, the observation of the regression
  with modulation is \<open>zgrad[i] = z1[i] - x[2]/2 t^2\<close> minus the dot product of columns 4 to
  9 of row \<open>i\<close> of the full matrix with gradient with \<open>x[3..8]\<close>, and column 2 of the
  five-column matrix is
  \<open>(x[1]/6 t^3 + x[2]/24 t^4 - (x[2] - x_grad[2]) t^2 / (2 gradient)) / 10^6\<close>,
  where \<open>x\<close> is the solution without and \<open>x_grad\<close> the solution with gradient, \<open>t = tt[i]\<close>.
\<close>

theorem modulation_inputs:
  assumes "fringe_loop s fr = Inr (z1, tt', A_grad1, A1, A4)"
    and "modulation s x xg z1 tt' A_grad1 = Inr (col2, zgrad)"
    and "i < length fr" and "gradient s = Some gr" and "gr \<noteq> 0"
  shows "zgrad ! i = z1 ! i - x ! 2 / 2 * (tt' ! i) ^ 2
                     - np_dot (drop 3 (rows A_grad1 ! i)) (drop 3 x)
       \<and> rows (set_column 2 col2 A4) ! i ! 2 =
           (x ! 1 / 6 * (tt' ! i) ^ 3 + x ! 2 / 24 * (tt' ! i) ^ 4
              - (x ! 2 - xg ! 2) * (tt' ! i) ^ 2 / (2 * gr)) / 10 ^ 6"
proof -
  from fringe_loop_rows [OF assms(1,3)] obtain lp where
    len: "length z1 = length fr" "length tt' = length fr" "length (rows A_grad1) = length fr"
      "length (rows A4) = length fr"
    and r4: "rows A4 ! i = line4 lp (tt' ! i) (z1 ! i)"
    by auto
  from assms(3) len have ne: "tt' \<noteq> []" by auto
  from assms(2) ne assms(4) obtain modkor where
    c2: "col2 = map (A4_column2 (x ! 1) (x ! 2) (xg ! 2) gr) tt'"
    and mk: "np_matmul (cols_from 3 A_grad1) (drop 3 x) = Inr modkor"
    and zg: "np_subtract (map2 (\<lambda>z t. z - x ! 2 / 2 * t ^ 2) z1 tt') modkor = Inr zgrad"
    unfolding modulation_def
    by (auto simp: attr_def nth_py_def elim!: bnd_InrE split: if_splits)
  from mk have modkor: "modkor = map (\<lambda>r. np_dot r (drop 3 x)) (map (drop 3) (rows A_grad1))"
    by (auto simp: np_matmul_def cols_from_def split: if_splits)
  have "length modkor = length (map2 (\<lambda>z t. z - x ! 2 / 2 * t ^ 2) z1 tt')"
    using len by (simp add: modkor)
  with zg have "zgrad = map2 (-) (map2 (\<lambda>z t. z - x ! 2 / 2 * t ^ 2) z1 tt') modkor"
    by (simp add: np_subtract_def broadcast_same)
  then have 1: "zgrad ! i = z1 ! i - x ! 2 / 2 * (tt' ! i) ^ 2
                     - np_dot (drop 3 (rows A_grad1 ! i)) (drop 3 x)"
    using assms(3) len by (simp add: modkor)
  have "rows (set_column 2 col2 A4) ! i = (rows A4 ! i)[2 := col2 ! i]"
    using assms(3) len by (simp add: set_column_def c2)
  then have 2: "rows (set_column 2 col2 A4) ! i ! 2 = A4_column2 (x ! 1) (x ! 2) (xg ! 2) gr (tt' ! i)"
    using assms(3) len by (simp add: r4 line4_def c2)
  from 1 2 show ?thesis
    by (simp add: A4_column2_def mult.commute)
qed

lemma modulation_example:
  "modulation (init\<lparr>Lambda := Some 1, scaleFactor := Some 1, multiplex := Some 1,
       gradient := Some 1, fmod := Some (1 / 4), Lpar := Some 1, rubiFreq := Some (10 ^ 7)\<rparr>)
     [1, 2, 3, 4, 5, 6, 7, 8, 9] [1, 2, 4, 4, 5, 6, 7, 8, 9] [0] [1]
     (Matrix 9 [[1, 7 / 6, 13 / 24, 0, 1, 0, 0, 0, 1]])
   = Inr ([23 / 24 / 10 ^ 6], [- 31 / 2])"
  by (simp add: modulation_def init_def bnd_simps attr_simps nth_py_def A4_column2_def
      np_matmul_def cols_from_def np_dot_def np_subtract_def broadcast_def)

theorem modulation_inputs_witness:
  "(1::real) \<noteq> 0
   \<and> [- 31 / 2] ! 0 = (0::real) - [1, 2, 3, 4, 5, 6, 7, 8, 9] ! 2 / 2 * 1 ^ 2
        - np_dot (drop 3 (rows (Matrix 9 [[1, 7 / 6, 13 / 24, 0, 1, 0, 0, 0, 1]]) ! 0))
            (drop 3 [1, 2, 3, 4, 5, 6, 7, 8, 9])
   \<and> rows (set_column 2 [23 / 24 / 10 ^ 6] (Matrix 5 [[1, 1, 0, 0, 1]])) ! 0 ! 2 =
       ((2::real) / 6 * 1 ^ 3 + 3 / 24 * 1 ^ 4 - (3 - 4) * 1 ^ 2 / (2 * 1)) / 10 ^ 6"
  using modulation_inputs [OF fringe_loop_example modulation_example, of 0 1]
  by (simp add: init_def)

section \<open>The drop-acceptance value\<close>

lemma py_slice_inside:
  assumes "0 \<le> lo" "lo \<le> hi" "hi \<le> int (length xs)"
  shows "length (py_slice lo hi xs) = nat (hi - lo)"
  using assms by (auto simp: py_slice_def clip_index_def Let_def)

lemma LST_ssres:
  assumes "LST np s = Inr s'"
  shows "\<exists>res lo hi. res_grad1 s' = Some res \<and> frminss s = Some lo \<and> frmaxss s = Some hi
           \<and> ssres s' = Some (ssres_of res lo hi)"
  using assms unfolding LST_def Let_def
  by (auto simp: attr_def elim!: bnd_InrE split: prod.splits if_splits option.splits)

text \<open>
  C6, what the code computes. With \<open>0 \<le> frminss \<le> frmaxss \<le> len\<close> the slice
  \<open>res_grad1[frminss:frmaxss]\<close> holds \<open>frmaxss - frminss\<close> residuals, and \<open>ssres\<close> is the
  square root of their sum of squares divided by that count plus one.
\<close>

theorem ssres_divisor:
  assumes "0 \<le> lo" "lo \<le> hi" "hi \<le> int (length res)"
  shows "length (py_slice lo hi res) = nat (hi - lo)
       \<and> ssres_of res lo hi =
           Fin (sqrt (np_dot (py_slice lo hi res) (py_slice lo hi res)
                        / (real (length (py_slice lo hi res)) + 1)))"
proof -
  have nn: "0 \<le> np_dot (py_slice lo hi res) (py_slice lo hi res)"
    unfolding np_dot_def by (rule sum_list_nonneg) (auto simp: in_set_zip)
  have len: "length (py_slice lo hi res) = nat (hi - lo)"
    using assms by (rule py_slice_inside)
  then have dv: "real_of_int (hi - lo + 1) = real (length (py_slice lo hi res)) + 1"
    using assms by simp
  have pos: "0 < real (length (py_slice lo hi res)) + 1" by simp
  show ?thesis
    using len nn pos
    unfolding ssres_of_def Let_def dv np_div_def
    by (auto simp: not_less divide_nonneg_pos)
qed

theorem ssres_divisor_witness:
  "ssres_of [1, 1, 1] 0 3 = Fin (sqrt (3 / 4)) \<and> length (py_slice 0 3 [1, 1, 1 :: real]) = 3"
  using ssres_divisor [of 0 3 "[1, 1, 1]"]
  by (simp add: py_slice_def clip_index_def np_dot_def)

section \<open>The row written by printResult\<close>

lemma append_pairs_all:
  "length X \<le> length sd \<Longrightarrow>
   append_pairs X sd acc =
     Inr (acc @ concat (map2 (\<lambda>v u. [FloatCell v, FloatCell u]) X sd))"
  by (induction X sd acc rule: append_pairs.induct) simp_all

text \<open>
  C8. For \<open>X\<close> with at least three values, \<open>std\<close> at least as long and a non-empty \<open>m0\<close>,
  \<open>printResult\<close> appends one row to the file: \<open>set\<close>, \<open>drop\<close>, \<open>m0[0]\<close>, then value and
  standard deviation of every unknown in turn. Of these only five are changed, whatever
  the float product and \<open>round\<close> compute: the value of \<open>z0\<close> is multiplied by \<open>1e-6\<close> and
  rounded to 4 places, its standard deviation multiplied by \<open>1e-6\<close> and rounded to 14
  places, the value of \<open>v0\<close> multiplied by \<open>1e-6\<close> and rounded to 4 places, its standard
  deviation multiplied by \<open>1e-6\<close> and rounded to 15 places, and the standard deviation of
  \<open>g0\<close> rounded to 3 places without a product.
\<close>

theorem printResult_row:
  assumes "3 \<le> length X" and "length X \<le> length sd" and "m0 \<noteq> []"
  shows "printResult fl X sd set' drop' m0 e =
     Inr (e\<lparr>f := f e @
       [Row ([IntCell set', IntCell drop', FloatCell (m0 ! 0),
              FloatCell (py_round fl (fmul fl (X ! 0) (lit_1e_6 fl)) 4),
              FloatCell (py_round fl (fmul fl (sd ! 0) (lit_1e_6 fl)) 14),
              FloatCell (py_round fl (fmul fl (X ! 1) (lit_1e_6 fl)) 4),
              FloatCell (py_round fl (fmul fl (sd ! 1) (lit_1e_6 fl)) 15),
              FloatCell (X ! 2),
              FloatCell (py_round fl (sd ! 2) 3)]
             @ concat (map2 (\<lambda>v u. [FloatCell v, FloatCell u]) (drop 3 X) (drop 3 sd)))]\<rparr>)"
proof -
  from assms(1) obtain a0 a1 a2 X' where X: "X = a0 # a1 # a2 # X'"
    by (cases X; cases "tl X"; cases "tl (tl X)") auto
  from assms(1,2) obtain b0 b1 b2 sd' where sd: "sd = b0 # b1 # b2 # sd'"
    by (cases sd; cases "tl sd"; cases "tl (tl sd)") auto
  from assms(2) have le: "length X' \<le> length sd'" by (simp add: X sd)
  from assms(3) have m0: "nth_py m0 0 = Inr (m0 ! 0)" by (simp add: nth_py_def)
  show ?thesis
    unfolding printResult_def m0 X sd
    by (simp add: bnd_simps append_pairs_all [OF le] scale_round_at_def round_at_def nth_py_def)
qed

text \<open>
  Four unknowns, read as expressions: the row holds the product with \<open>1e-6\<close> under
  \<open>round\<close> in cells 3 to 6, \<open>round\<close> alone in cell 8, and the inputs themselves elsewhere.
\<close>

theorem printResult_row_witness:
  "printResult symbolic
     [Given ''z0'', Given ''v0'', Given ''g0'', Given ''a1'']
     [Given ''z0-std'', Given ''v0-std'', Given ''g0-std'', Given ''a1-std'']
     1 2 [Given ''m0''] estim_init =
     Inr (estim_init\<lparr>f := f estim_init @
       [Row [IntCell 1, IntCell 2, FloatCell (Given ''m0''),
             FloatCell (Rounded (Product (Given ''z0'') Lit_1e_6) 4),
             FloatCell (Rounded (Product (Given ''z0-std'') Lit_1e_6) 14),
             FloatCell (Rounded (Product (Given ''v0'') Lit_1e_6) 4),
             FloatCell (Rounded (Product (Given ''v0-std'') Lit_1e_6) 15),
             FloatCell (Given ''g0''),
             FloatCell (Rounded (Given ''g0-std'') 3),
             FloatCell (Given ''a1''),
             FloatCell (Given ''a1-std'')]]\<rparr>)"
  using printResult_row [of "[Given ''z0'', Given ''v0'', Given ''g0'', Given ''a1'']"
      "[Given ''z0-std'', Given ''v0-std'', Given ''g0-std'', Given ''a1-std'']"
      "[Given ''m0'']" symbolic 1 2 estim_init]
  by (simp add: symbolic_def)

end
